theory Spec2Isabelle
  imports Complex_Main "HOL-Library.AList"
begin

section \<open>Python values, errors and strings\<close>

text \<open>
  The exceptions the two sub-models can raise.  \<open>ValueError\<close> carries the message up to
  and including the offending identifier (the source's f-strings go on to list the valid
  identifiers), \<open>KeyError\<close> and \<open>AttributeError\<close> carry the missing key or attribute.
\<close>

datatype error =
    ValueError string
  | KeyError string
  | IndexError
  | TypeError
  | AttributeError string
  | AssertionError
  | RuntimeError

text \<open>Python's \<open>str\<close> on an \<open>int\<close>: decimal digits, with a leading minus sign.\<close>

definition digit_char :: "nat \<Rightarrow> char" where
  "digit_char n = ''0123456789'' ! (n mod 10)"

function str_nat :: "nat \<Rightarrow> string" where
  "str_nat n = (if n < 10 then [digit_char n] else str_nat (n div 10) @ [digit_char n])"
  by pat_completeness auto
termination
  by (relation "measure (\<lambda>n. n)") auto

declare str_nat.simps [simp del]

definition str :: "int \<Rightarrow> string" where
  "str i = (if i < 0 then CHR ''-'' # str_nat (nat (- i)) else str_nat (nat i))"

section \<open>Arrays\<close>

text \<open>
  An array element is a real number or \<open>None\<close>, numpy's \<open>nan\<close>.  The floating-point
  numbers of the source are idealised as reals: rounding and overflow are not modelled.
  What is modelled is where numpy leaves the reals: a division by zero, the square root of
  a negative number and the arc cosine outside \<open>[-1, 1]\<close> give a non-finite value (with a
  warning, not an exception), and a non-finite operand gives a non-finite result.  In the
  closed-form solver below every division is by \<open>p\<close> or \<open>2 * p\<close>, and a quotient by zero
  there goes on through \<open>sqrt\<close>, a product and \<open>arccos\<close>, which turn \<open>inf\<close> into \<open>nan\<close>; so
  one value \<open>None\<close> stands for both.
\<close>

type_synonym fl = "real option"

definition fl_bin :: "(real \<Rightarrow> real \<Rightarrow> real) \<Rightarrow> fl \<Rightarrow> fl \<Rightarrow> fl" where
  "fl_bin f a b = (case a of None \<Rightarrow> None | Some x \<Rightarrow> (case b of None \<Rightarrow> None | Some y \<Rightarrow> Some (f x y)))"

definition fl_un :: "(real \<Rightarrow> real) \<Rightarrow> fl \<Rightarrow> fl" where
  "fl_un f a = (case a of None \<Rightarrow> None | Some x \<Rightarrow> Some (f x))"

definition fl_div :: "fl \<Rightarrow> fl \<Rightarrow> fl" where
  "fl_div a b =
     (case a of None \<Rightarrow> None
      | Some x \<Rightarrow> (case b of None \<Rightarrow> None | Some y \<Rightarrow> if y = 0 then None else Some (x / y)))"

definition fl_sqrt :: "fl \<Rightarrow> fl" where
  "fl_sqrt a = (case a of None \<Rightarrow> None | Some x \<Rightarrow> if x < 0 then None else Some (sqrt x))"

definition fl_arccos :: "fl \<Rightarrow> fl" where
  "fl_arccos a =
     (case a of None \<Rightarrow> None | Some x \<Rightarrow> if x < - 1 \<or> 1 < x then None else Some (arccos x))"

text \<open>
  A numpy array: its shape and its elements in row-major order.  All arithmetic of the
  source is elementwise, between arrays of one shape or between an array and a scalar.
\<close>

record ndarray =
  shape :: "nat list"
  data :: "fl list"

definition zeros :: "nat list \<Rightarrow> ndarray" where
  "zeros sh = \<lparr>shape = sh, data = replicate (prod_list sh) (Some 0)\<rparr>"

definition a_un :: "(fl \<Rightarrow> fl) \<Rightarrow> ndarray \<Rightarrow> ndarray" where
  "a_un f a = \<lparr>shape = shape a, data = map f (data a)\<rparr>"

definition a_bin :: "(fl \<Rightarrow> fl \<Rightarrow> fl) \<Rightarrow> ndarray \<Rightarrow> ndarray \<Rightarrow> ndarray" where
  "a_bin f a b = \<lparr>shape = shape a, data = map2 f (data a) (data b)\<rparr>"

definition np_add :: "ndarray \<Rightarrow> ndarray \<Rightarrow> ndarray" where
  "np_add = a_bin (fl_bin (+))"

definition np_sub :: "ndarray \<Rightarrow> ndarray \<Rightarrow> ndarray" where
  "np_sub = a_bin (fl_bin (-))"

definition np_mul :: "ndarray \<Rightarrow> ndarray \<Rightarrow> ndarray" where
  "np_mul = a_bin (fl_bin (*))"

definition np_div :: "ndarray \<Rightarrow> ndarray \<Rightarrow> ndarray" where
  "np_div = a_bin fl_div"

text \<open>\<open>r * a\<close>, \<open>a / r\<close>, \<open>r / a\<close> and \<open>a - r\<close> for a Python scalar \<open>r\<close>; \<open>a ** 2\<close> and \<open>a ** 3\<close>.\<close>

definition np_scale :: "real \<Rightarrow> ndarray \<Rightarrow> ndarray" where
  "np_scale r = a_un (fl_bin (*) (Some r))"

definition np_divs :: "ndarray \<Rightarrow> real \<Rightarrow> ndarray" where
  "np_divs a r = a_un (\<lambda>x. fl_div x (Some r)) a"

definition np_rdiv :: "real \<Rightarrow> ndarray \<Rightarrow> ndarray" where
  "np_rdiv r = a_un (fl_div (Some r))"

definition np_subs :: "ndarray \<Rightarrow> real \<Rightarrow> ndarray" where
  "np_subs a r = a_un (\<lambda>x. fl_bin (-) x (Some r)) a"

definition np_sq :: "ndarray \<Rightarrow> ndarray" where
  "np_sq = a_un (fl_un (\<lambda>x. x ^ 2))"

definition np_cube :: "ndarray \<Rightarrow> ndarray" where
  "np_cube = a_un (fl_un (\<lambda>x. x ^ 3))"

definition np_sqrt :: "ndarray \<Rightarrow> ndarray" where
  "np_sqrt = a_un fl_sqrt"

definition np_cos :: "ndarray \<Rightarrow> ndarray" where
  "np_cos = a_un (fl_un cos)"

definition np_arccos :: "ndarray \<Rightarrow> ndarray" where
  "np_arccos = a_un fl_arccos"

text \<open>
  \<open>xp.max(principals, 0)\<close> and \<open>xp.min(principals, 0)\<close> for the three slices of
  \<open>principals\<close>: the elementwise maximum and minimum, \<open>nan\<close> wherever a slice has it.
\<close>

definition np_max3 :: "ndarray \<Rightarrow> ndarray \<Rightarrow> ndarray \<Rightarrow> ndarray" where
  "np_max3 a b c = a_bin (fl_bin max) (a_bin (fl_bin max) a b) c"

definition np_min3 :: "ndarray \<Rightarrow> ndarray \<Rightarrow> ndarray \<Rightarrow> ndarray" where
  "np_min3 a b c = a_bin (fl_bin min) (a_bin (fl_bin min) a b) c"

text \<open>
  numpy's broadcasting for an in-place sum \<open>a += r\<close>: the shape of \<open>r\<close>, aligned at the
  last axis, must agree with the shape of \<open>a\<close> at every axis or be \<open>1\<close> there, and may
  have fewer axes but not more.  \<open>r\<close> is then read as an array of the shape of \<open>a\<close>, its
  elements repeated along the axes where it has length \<open>1\<close> or none.
\<close>

definition broadcastable :: "nat list \<Rightarrow> nat list \<Rightarrow> bool" where
  "broadcastable bs ts =
     (length bs \<le> length ts
      \<and> list_all2 (\<lambda>b t. b = t \<or> b = 1) bs (drop (length ts - length bs) ts))"

fun expand_to :: "nat list \<Rightarrow> nat list \<Rightarrow> fl list \<Rightarrow> fl list" where
  "expand_to (b # bs) (t # ts) xs =
     (let k = prod_list bs;
          rows = concat (map (\<lambda>i. expand_to bs ts (take k (drop (i * k) xs))) [0..<b])
      in if b = t then rows else concat (replicate t rows))"
| "expand_to bs ts xs = xs"

definition broadcast_to :: "nat list \<Rightarrow> ndarray \<Rightarrow> ndarray" where
  "broadcast_to sh a =
     \<lparr>shape = sh,
      data = expand_to (replicate (length sh - length (shape a)) 1 @ shape a) sh (data a)\<rparr>"

section \<open>The objects of the contact model\<close>

text \<open>
  A material of \<open>slippy.core\<close> is seen through what \<open>solve\<close> uses of it: whether it is an
  \<open>_IMMaterial\<close>, and the three functions that give the influence matrices, each a
  dictionary from stress component to array, for the arguments
  \<open>(span, grid_spacing, comps_to_find, z, cuda_convolutions)\<close>.
\<close>

record material =
  is_IMMaterial :: bool
  sss_influence_matrices_normal ::
    "nat list \<Rightarrow> real list \<Rightarrow> string list \<Rightarrow> real list \<Rightarrow> bool \<Rightarrow> (string \<times> ndarray) list"
  sss_influence_matrices_tangential_x ::
    "nat list \<Rightarrow> real list \<Rightarrow> string list \<Rightarrow> real list \<Rightarrow> bool \<Rightarrow> (string \<times> ndarray) list"
  sss_influence_matrices_tangential_y ::
    "nat list \<Rightarrow> real list \<Rightarrow> string list \<Rightarrow> real list \<Rightarrow> bool \<Rightarrow> (string \<times> ndarray) list"

record surface =
  material :: material
  grid_spacing :: real
  position :: "real \<times> real"

text \<open>
  \<open>position\<close> stands for the geometry a rolling surface's \<open>shift\<close> changes; the method
  itself, of a class that is not among the sources, is a parameter of the model.
\<close>

type_synonym shifter = "surface \<Rightarrow> real \<Rightarrow> real \<Rightarrow> surface"

record contact_model =
  surface_1 :: surface
  surface_2 :: surface

text \<open>\<open>self.model.__getattribute__('surface_' + str(surface_num))\<close>\<close>

definition get_surface :: "contact_model \<Rightarrow> int \<Rightarrow> error + surface" where
  "get_surface m n =
     (if n = 1 then Inr (surface_1 m)
      else if n = 2 then Inr (surface_2 m)
      else Inl (AttributeError (''surface_'' @ str n)))"

text \<open>What \<open>_SubModelABC.__init__(name, requires, provides)\<close> is given to keep.\<close>

record SubModelABC =
  name :: string
  requires :: "string set"
  provides :: "string set"

section \<open>SubsurfaceStress\<close>

type_synonym conv_funcs = "(string \<times> (ndarray \<Rightarrow> ndarray)) list"

record SubsurfaceStress = SubModelABC +
  surfaces :: "int list"
  load_components :: string
  stress_components :: "string list"
  keep_kernels :: bool
  cuda_convolutions :: bool
  kernel_cache :: "int \<rightharpoonup> (string \<rightharpoonup> conv_funcs)"
  cache_span :: "nat list"
  z :: "real list option"
  comps_to_find :: "string list"
  periodic_axes :: "bool \<times> bool"

text \<open>\<open>surface: Union[int, Sequence[int]]\<close> and \<open>stress_components: Union[str, Sequence[str]]\<close>\<close>

datatype surface_arg = SurfaceInt int | SurfaceSeq "int list"

datatype stress_arg = StressStr string | StressSeq "string list"

definition valid_stresses :: "string list" where
  "valid_stresses = [''xx'', ''yy'', ''zz'', ''xy'', ''yz'', ''xz'', ''1'', ''2'', ''3'', ''vm'']"

definition cauchy_components :: "string list" where
  "cauchy_components = [''xx'', ''yy'', ''zz'', ''xy'', ''yz'', ''xz'']"

text \<open>
  \<open>SubsurfaceStress.__init__(z, surface, name, periodic_axes, load_components,
  stress_components, keep_kernels, cuda_convolutions)\<close>, every argument given.
\<close>

definition SubsurfaceStress_init ::
  "real list option \<Rightarrow> surface_arg \<Rightarrow> string \<Rightarrow> bool \<times> bool \<Rightarrow> string \<Rightarrow> stress_arg \<Rightarrow> bool \<Rightarrow> bool
     \<Rightarrow> error + SubsurfaceStress" where
  "SubsurfaceStress_init z_arg surface_a nm periodic load_comps stress_a keep cuda =
     (let surface = (case surface_a of SurfaceInt s \<Rightarrow> [s] | SurfaceSeq ss \<Rightarrow> ss);
          stress_comps = (case stress_a of StressStr s \<Rightarrow> [s] | StressSeq ss \<Rightarrow> ss)
      in case List.find (\<lambda>lc. lc \<notin> set ''xz'') load_comps of
           Some lc \<Rightarrow> Inl (ValueError (''Unrecognised load direction: '' @ [lc]))
         | None \<Rightarrow>
            (case List.find (\<lambda>sc. sc \<notin> set valid_stresses) stress_comps of
               Some sc \<Rightarrow> Inl (ValueError (''Unrecognised stress component: '' @ sc))
             | None \<Rightarrow>
                 Inr \<lparr>name = nm,
                      requires = (\<lambda>c. ''loads_'' @ [c]) ` set load_comps,
                      provides =
                        (\<lambda>(s, sc). ''surface_'' @ str s @ ''_'' @ sc) ` set (List.product surface stress_comps),
                      surfaces = surface,
                      load_components = load_comps,
                      stress_components = stress_comps,
                      keep_kernels = keep,
                      cuda_convolutions = cuda,
                      kernel_cache =
                        map_of (map (\<lambda>s. (s, map_of (map (\<lambda>a. (a, [])) stress_comps))) surface),
                      cache_span = [0, 0],
                      z = z_arg,
                      comps_to_find =
                        (if list_ex (\<lambda>s. s \<in> set stress_comps) [''1'', ''2'', ''3'', ''vm'']
                         then cauchy_components else stress_comps),
                      periodic_axes = periodic\<rparr>))"

text \<open>The constructor with the defaults of its signature.\<close>

definition SubsurfaceStress_default :: "error + SubsurfaceStress" where
  "SubsurfaceStress_default =
     SubsurfaceStress_init None (SurfaceSeq [1, 2]) ''sub_surface_stress'' (False, False) ''z''
       (StressSeq [''all'']) True False"

subsection \<open>The accumulator of solve\<close>

text \<open>
  \<open>intermediate_results\<close> is a \<open>defaultdict\<close> whose factory is \<open>xp.zeros(out_put_shape)\<close>:
  a dictionary in insertion order, where reading a missing key inserts the default.
\<close>

type_synonym results = "(string \<times> ndarray) list"

definition dd_get :: "nat list \<Rightarrow> results \<Rightarrow> string \<Rightarrow> ndarray" where
  "dd_get osh ir key = (case map_of ir key of Some v \<Rightarrow> v | None \<Rightarrow> zeros osh)"

definition dd_touch :: "nat list \<Rightarrow> results \<Rightarrow> string \<Rightarrow> results" where
  "dd_touch osh ir key = (if key \<in> fst ` set ir then ir else ir @ [(key, zeros osh)])"

text \<open>
  \<open>plan_multi_convolve(example_loads, value, None, self.periodic_axes)\<close> of \<open>slippy.core\<close>
  is a parameter of the model: from the template field, an influence matrix and the
  periodic axes it gives the function that convolves a load field.
\<close>

type_synonym planner = "ndarray \<Rightarrow> ndarray \<Rightarrow> bool \<times> bool \<Rightarrow> ndarray \<Rightarrow> ndarray"

subsection \<open>Fetching or building the kernels (lines 111 to 127)\<close>

text \<open>
  The branch of one surface and one load direction.  With \<open>keep_kernels\<close> and the span
  equal to \<open>_cache_span\<close> the entry \<open>_kernel_cache[surface_num][l_comp]\<close> is read, and a
  missing key raises \<open>KeyError\<close>.  Otherwise the kernels of this surface and direction are
  built, and with \<open>keep_kernels\<close> the span is recorded and the entry stored.  The object is
  returned with the error too, since \<open>_cache_span\<close> is assigned before the entry.
\<close>

text \<open>
  Lines 115 to 122: the influence matrices of a material for one load direction, and
  \<open>ValueError\<close> for a direction that is none of \<open>z\<close>, \<open>x\<close>, \<open>y\<close>.
\<close>

definition influence_matrices ::
  "material \<Rightarrow> char \<Rightarrow> nat list \<Rightarrow> real list \<Rightarrow> string list \<Rightarrow> real list \<Rightarrow> bool
     \<Rightarrow> error + (string \<times> ndarray) list" where
  "influence_matrices mat l_comp sp gs comps zs cuda =
     (if l_comp = CHR ''z'' then Inr (sss_influence_matrices_normal mat sp gs comps zs cuda)
      else if l_comp = CHR ''x'' then Inr (sss_influence_matrices_tangential_x mat sp gs comps zs cuda)
      else if l_comp = CHR ''y'' then Inr (sss_influence_matrices_tangential_y mat sp gs comps zs cuda)
      else Inl (ValueError (''Unrecognised load component requested: '' @ [l_comp])))"

definition get_conv_funcs ::
  "planner \<Rightarrow> ndarray \<Rightarrow> real list \<Rightarrow> int \<Rightarrow> surface \<Rightarrow> char \<Rightarrow> SubsurfaceStress
     \<Rightarrow> (error \<times> SubsurfaceStress) + (SubsurfaceStress \<times> conv_funcs)" where
  "get_conv_funcs plan example_loads zs surface_num surf l_comp self =
     (let span = shape example_loads in
      if keep_kernels self \<and> span = cache_span self then
        (case kernel_cache self surface_num of
           None \<Rightarrow> Inl (KeyError (str surface_num), self)
         | Some inner \<Rightarrow>
            (case inner [l_comp] of
               None \<Rightarrow> Inl (KeyError [l_comp], self)
             | Some conv_funcs \<Rightarrow> Inr (self, conv_funcs)))
      else
        (let gs = [grid_spacing surf, grid_spacing surf] in
         case influence_matrices (material surf) l_comp span gs (comps_to_find self) zs
                (cuda_convolutions self) of
              Inl e \<Rightarrow> Inl (e, self)
            | Inr im_comps \<Rightarrow>
               (let conv_funcs =
                      map (\<lambda>(key, val). (key, plan example_loads val (periodic_axes self))) im_comps
                in if keep_kernels self then
                     (let self1 = self\<lparr>cache_span := span\<rparr> in
                      case kernel_cache self1 surface_num of
                        None \<Rightarrow> Inl (KeyError (str surface_num), self1)
                      | Some inner \<Rightarrow>
                          Inr (self1\<lparr>kernel_cache :=
                                 (kernel_cache self1)(surface_num \<mapsto> inner([l_comp] \<mapsto> conv_funcs))\<rparr>,
                               conv_funcs))
                   else Inr (self, conv_funcs))))"

subsection \<open>Convolving and accumulating (lines 129 to 131)\<close>

text \<open>
  \<open>intermediate_results[key] += conv_func(loads)\<close> for every kernel of the direction.
  The load field is read from the state for each kernel.  The in-place sum broadcasts
  the result into the accumulator, of shape \<open>out_put_shape\<close>, and raises \<open>ValueError\<close>
  for a result that cannot be broadcast to that shape.
\<close>

fun accumulate ::
  "conv_funcs \<Rightarrow> char \<Rightarrow> (string \<rightharpoonup> ndarray) \<Rightarrow> nat list \<Rightarrow> results \<Rightarrow> error + results" where
  "accumulate [] l_comp current_state osh ir = Inr ir"
| "accumulate ((key, conv_func) # rest) l_comp current_state osh ir =
     (case current_state (''loads_'' @ [l_comp]) of
        None \<Rightarrow> Inl (KeyError (''loads_'' @ [l_comp]))
      | Some loads \<Rightarrow>
         (let r = conv_func loads in
          if broadcastable (shape r) osh
          then accumulate rest l_comp current_state osh
                 (AList.update key (np_add (dd_get osh ir key) (broadcast_to osh r)) ir)
          else Inl (ValueError ''operands could not be broadcast together'')))"

text \<open>The loop over \<open>self.load_components\<close> for one surface.\<close>

fun loads_loop ::
  "planner \<Rightarrow> ndarray \<Rightarrow> real list \<Rightarrow> int \<Rightarrow> surface \<Rightarrow> (string \<rightharpoonup> ndarray) \<Rightarrow> string
     \<Rightarrow> SubsurfaceStress \<Rightarrow> results \<Rightarrow> (error \<times> SubsurfaceStress) + (SubsurfaceStress \<times> results)" where
  "loads_loop plan example_loads zs surface_num surf current_state [] self ir = Inr (self, ir)"
| "loads_loop plan example_loads zs surface_num surf current_state (l_comp # rest) self ir =
     (case get_conv_funcs plan example_loads zs surface_num surf l_comp self of
        Inl e \<Rightarrow> Inl e
      | Inr (self1, conv_funcs) \<Rightarrow>
         (case accumulate conv_funcs l_comp current_state (length zs # shape example_loads) ir of
            Inl e \<Rightarrow> Inl (e, self1)
          | Inr ir1 \<Rightarrow>
              loads_loop plan example_loads zs surface_num surf current_state rest self1 ir1))"

subsection \<open>The derived components (lines 133 to 168)\<close>

text \<open>The von Mises stress; reading the six components inserts the missing ones.\<close>

definition vm_step :: "nat list \<Rightarrow> results \<Rightarrow> results" where
  "vm_step osh ir =
     (let ir1 = foldl (dd_touch osh) ir [''xx'', ''yy'', ''zz'', ''xy'', ''yz'', ''xz''];
          xx = dd_get osh ir1 ''xx''; yy = dd_get osh ir1 ''yy''; zz = dd_get osh ir1 ''zz'';
          xy = dd_get osh ir1 ''xy''; yz = dd_get osh ir1 ''yz''; xz = dd_get osh ir1 ''xz''
      in AList.update ''vm''
           (np_sqrt (np_divs
              (np_add
                 (np_add (np_add (np_sq (np_sub xx yy)) (np_sq (np_sub yy zz))) (np_sq (np_sub zz xx)))
                 (np_scale 6 (np_add (np_add (np_sq xy) (np_sq yz)) (np_sq xz))))
              2))
           ir1)"

text \<open>The three invariants of the tensor and the coefficients of the depressed cubic.\<close>

definition inv_b :: "ndarray \<Rightarrow> ndarray \<Rightarrow> ndarray \<Rightarrow> ndarray" where
  "inv_b xx yy zz = np_add (np_add xx yy) zz"

definition inv_c ::
  "ndarray \<Rightarrow> ndarray \<Rightarrow> ndarray \<Rightarrow> ndarray \<Rightarrow> ndarray \<Rightarrow> ndarray \<Rightarrow> ndarray" where
  "inv_c xx yy zz xy yz xz =
     np_sub (np_sub (np_sub
       (np_add (np_add (np_mul xx yy) (np_mul yy zz)) (np_mul xx zz))
       (np_sq xy)) (np_sq xz)) (np_sq yz)"

definition inv_d ::
  "ndarray \<Rightarrow> ndarray \<Rightarrow> ndarray \<Rightarrow> ndarray \<Rightarrow> ndarray \<Rightarrow> ndarray \<Rightarrow> ndarray" where
  "inv_d xx yy zz xy yz xz =
     np_sub (np_sub (np_sub
       (np_add (np_mul (np_mul xx yy) zz) (np_mul (np_mul (np_scale 2 xy) xz) yz))
       (np_mul xx (np_sq yz))) (np_mul yy (np_sq xz))) (np_mul zz (np_sq xy))"

definition cubic_p :: "ndarray \<Rightarrow> ndarray \<Rightarrow> ndarray" where
  "cubic_p b c = np_sub c (np_divs (np_sq b) 3)"

definition cubic_q :: "ndarray \<Rightarrow> ndarray \<Rightarrow> ndarray \<Rightarrow> ndarray" where
  "cubic_q b c d =
     np_add (np_sub (np_scale (2 / 27) (np_cube b)) (np_mul (np_scale (1 / 3) b) c)) d"

text \<open>
  \<open>principals[i] = 2 * xp.sqrt((-1 / 3) * p) * xp.cos(1 / 3 * xp.arccos(3 * q / (2 * p) *
  xp.sqrt(-3 / p)) - 2 * xp.pi * i / 3) - b / 3\<close>
\<close>

definition principals :: "ndarray \<Rightarrow> ndarray \<Rightarrow> ndarray \<Rightarrow> nat \<Rightarrow> ndarray" where
  "principals p q b i =
     np_sub
       (np_mul
          (np_scale 2 (np_sqrt (np_scale (- 1 / 3) p)))
          (np_cos
             (np_subs
                (np_scale (1 / 3)
                   (np_arccos
                      (np_mul (np_div (np_scale 3 q) (np_scale 2 p)) (np_sqrt (np_rdiv (- 3) p)))))
                (2 * pi * real i / 3))))
       (np_divs b 3)"

text \<open>
  Lines 157 to 159: \<open>for key in intermediate_results: if key not in self.stress_components:
  del intermediate_results[key]\<close>.  Deleting from a dictionary while it is iterated makes
  the iterator's next step raise \<open>RuntimeError\<close> (dictionary changed size during
  iteration), also when the deleted key was the last; so the loop passes, changing
  nothing, exactly when every key is requested.
\<close>

fun del_unrequested :: "string list \<Rightarrow> string list \<Rightarrow> error + unit" where
  "del_unrequested requested [] = Inr ()"
| "del_unrequested requested (key # keys) =
     (if key \<notin> set requested then Inl RuntimeError else del_unrequested requested keys)"

definition principal_step :: "string list \<Rightarrow> nat list \<Rightarrow> results \<Rightarrow> error + results" where
  "principal_step requested osh ir =
     (let ir1 = foldl (dd_touch osh) ir [''xx'', ''yy'', ''zz'', ''xy'', ''xz'', ''yz''];
          xx = dd_get osh ir1 ''xx''; yy = dd_get osh ir1 ''yy''; zz = dd_get osh ir1 ''zz'';
          xy = dd_get osh ir1 ''xy''; yz = dd_get osh ir1 ''yz''; xz = dd_get osh ir1 ''xz'';
          b = inv_b xx yy zz;
          c = inv_c xx yy zz xy yz xz;
          d = inv_d xx yy zz xy yz xz;
          p = cubic_p b c;
          q = cubic_q b c d
      in case del_unrequested requested (map fst ir1) of
           Inl e \<Rightarrow> Inl e
         | Inr _ \<Rightarrow>
            (let one = np_max3 (principals p q b 0) (principals p q b 1) (principals p q b 2);
                 three = np_min3 (principals p q b 0) (principals p q b 1) (principals p q b 2);
                 ir2 = AList.update ''3'' three (AList.update ''1'' one ir1)
             in Inr (AList.update ''2'' (np_sub (np_sub b one) three) ir2)))"

subsection \<open>solve\<close>

text \<open>
  Lines 170 and 171: \<open>current_state['surface_' + str(surface_num) + '_' + key] =
  intermediate_results[key]\<close> for every requested component.
\<close>

definition write_results ::
  "int \<Rightarrow> nat list \<Rightarrow> results \<Rightarrow> string list \<Rightarrow> (string \<rightharpoonup> ndarray) \<Rightarrow> (string \<rightharpoonup> ndarray)" where
  "write_results surface_num osh ir keys current_state =
     foldl (\<lambda>st key. st(''surface_'' @ str surface_num @ ''_'' @ key \<mapsto> dd_get osh ir key))
       current_state keys"

text \<open>
  \<open>solve\<close> mutates the sub-model (its kernel cache) and the state dictionary in place, so
  an exception leaves both as they were when it was raised: the result is the pair of
  them, under \<open>Inr\<close> when \<open>solve\<close> returns and under \<open>Inl\<close> with the exception when it raises.
\<close>

type_synonym world = "SubsurfaceStress \<times> (string \<rightharpoonup> ndarray)"

text \<open>The body of the loop over \<open>self.surfaces\<close>, lines 104 to 171.\<close>

definition surface_body ::
  "planner \<Rightarrow> contact_model \<Rightarrow> ndarray \<Rightarrow> real list \<Rightarrow> int \<Rightarrow> world \<Rightarrow> (error \<times> world) + world" where
  "surface_body plan model example_loads zs surface_num w =
     (let self = fst w; current_state = snd w; osh = length zs # shape example_loads in
      case get_surface model surface_num of
        Inl e \<Rightarrow> Inl (e, w)
      | Inr surf \<Rightarrow>
         if \<not> is_IMMaterial (material surf) then Inl (AssertionError, w)
         else
          (case loads_loop plan example_loads zs surface_num surf current_state
                  (load_components self) self [] of
             Inl (e, self1) \<Rightarrow> Inl (e, (self1, current_state))
           | Inr (self1, ir) \<Rightarrow>
              (let ir1 = (if ''vm'' \<in> set (stress_components self1) then vm_step osh ir else ir) in
               case (if ''1'' \<in> set (stress_components self1) \<or> ''2'' \<in> set (stress_components self1)
                        \<or> ''3'' \<in> set (stress_components self1)
                     then principal_step (stress_components self1) osh ir1 else Inr ir1) of
                 Inl e \<Rightarrow> Inl (e, (self1, current_state))
               | Inr ir2 \<Rightarrow>
                   Inr (self1,
                        write_results surface_num osh ir2 (stress_components self1) current_state))))"

fun surfaces_loop ::
  "planner \<Rightarrow> contact_model \<Rightarrow> ndarray \<Rightarrow> real list \<Rightarrow> int list \<Rightarrow> world \<Rightarrow> (error \<times> world) + world" where
  "surfaces_loop plan model example_loads zs [] w = Inr w"
| "surfaces_loop plan model example_loads zs (surface_num # rest) w =
     (case surface_body plan model example_loads zs surface_num w of
        Inl e \<Rightarrow> Inl e
      | Inr w1 \<Rightarrow> surfaces_loop plan model example_loads zs rest w1)"

text \<open>
  \<open>SubsurfaceStress.solve(current_state)\<close>.  Lines 96 to 98 come first: the load field of
  the first direction is read from the state (\<open>IndexError\<close> on an empty
  \<open>load_components\<close>, \<open>KeyError\<close> on a missing key), then \<open>len(self.z)\<close> is taken, which
  raises \<open>TypeError\<close> when \<open>z\<close> is \<open>None\<close>.
\<close>

definition SubsurfaceStress_solve ::
  "planner \<Rightarrow> contact_model \<Rightarrow> world \<Rightarrow> (error \<times> world) + world" where
  "SubsurfaceStress_solve plan model w =
     (let self = fst w; current_state = snd w in
      case load_components self of
        [] \<Rightarrow> Inl (IndexError, w)
      | l0 # _ \<Rightarrow>
         (case current_state (''loads_'' @ [l0]) of
            None \<Rightarrow> Inl (KeyError (''loads_'' @ [l0]), w)
          | Some example_loads \<Rightarrow>
             (case z self of
                None \<Rightarrow> Inl (TypeError, w)
              | Some zs \<Rightarrow> surfaces_loop plan model example_loads zs (surfaces self) w)))"

section \<open>UpdateShiftRollingSurface\<close>

text \<open>
  What \<open>_TransientSubModelABC.__init__(name, requires, provides, transient_values,
  transient_names, interpolation_mode)\<close> is given to keep, and the surface to roll.
\<close>

record UpdateShiftRollingSurface = SubModelABC +
  transient_values :: "real \<times> real"
  transient_names :: "string \<times> string"
  interpolation_mode :: string
  surface_to_roll :: int

text \<open>Python's \<open>set(s)\<close> for a string \<open>s\<close>: the set of its characters, each a string.\<close>

definition set_of_str :: "string \<Rightarrow> string set" where
  "set_of_str s = (\<lambda>c. [c]) ` set s"

text \<open>
  \<open>UpdateShiftRollingSurface.__init__(name, surface_to_roll, speed_x, speed_y,
  interpolation_mode)\<close>: the base class is initialised first, with \<open>set("time_step")\<close>
  for \<open>requires\<close> and \<open>set()\<close> for \<open>provides\<close>, then \<open>surface_to_roll\<close> is checked.
\<close>

definition UpdateShiftRollingSurface_init ::
  "string \<Rightarrow> int \<Rightarrow> real \<Rightarrow> real \<Rightarrow> string \<Rightarrow> error + UpdateShiftRollingSurface" where
  "UpdateShiftRollingSurface_init nm to_roll speed_x speed_y mode =
     (if to_roll \<notin> {1, 2}
      then Inl (ValueError (''Surface to roll should be either 1 or 2, got '' @ str to_roll))
      else Inr \<lparr>name = nm,
                requires = set_of_str ''time_step'',
                provides = {},
                transient_values = (speed_x, speed_y),
                transient_names = (nm @ ''_shift_speed_x'', nm @ ''_shift_speed_y''),
                interpolation_mode = mode,
                surface_to_roll = to_roll\<rparr>)"

text \<open>
  \<open>UpdateShiftRollingSurface._solve(current_state, **kwargs)\<close>.  The state of a transient
  step holds numbers under the keys read here; \<open>kwargs\<close> are the current values of the
  transient parameters, by name.  Both lookups of line 22 come before those of line 23,
  and a missing key raises \<open>KeyError\<close> before anything is changed.  The result is the
  contact model, whose \<open>surface_1\<close> the call may have shifted, and the returned state.
\<close>

definition UpdateShiftRollingSurface_solve ::
  "shifter \<Rightarrow> UpdateShiftRollingSurface \<Rightarrow> contact_model \<Rightarrow> (string \<rightharpoonup> real) \<Rightarrow> (string \<rightharpoonup> real)
     \<Rightarrow> error + (contact_model \<times> (string \<rightharpoonup> real))" where
  "UpdateShiftRollingSurface_solve shift self model current_state kwargs =
     (case kwargs (name self @ ''_shift_speed_x'') of
        None \<Rightarrow> Inl (KeyError (name self @ ''_shift_speed_x''))
      | Some vx \<Rightarrow>
         (case current_state ''time_step'' of
            None \<Rightarrow> Inl (KeyError ''time_step'')
          | Some time_step \<Rightarrow>
             (case kwargs (name self @ ''_shift_speed_y'') of
                None \<Rightarrow> Inl (KeyError (name self @ ''_shift_speed_y''))
              | Some vy \<Rightarrow>
                 (let distance_x = vx * time_step;
                      distance_y = vy * time_step
                  in if surface_to_roll self = 1
                     then Inr (model\<lparr>surface_1 := shift (surface_1 model) distance_y distance_x\<rparr>,
                               current_state)
                     else Inr (model, current_state)))))"

section \<open>Example objects\<close>

text \<open>
  A material whose influence matrix for component \<open>c\<close> is the constant \<open>v c\<close> at every
  depth and grid point, one matrix for each requested component, whatever the direction.
\<close>

definition const_matrices ::
  "(string \<Rightarrow> real) \<Rightarrow> nat list \<Rightarrow> real list \<Rightarrow> string list \<Rightarrow> real list \<Rightarrow> bool
     \<Rightarrow> (string \<times> ndarray) list" where
  "const_matrices v sp gs comps zs cuda =
     map (\<lambda>c. (c, \<lparr>shape = length zs # sp,
                   data = replicate (length zs * prod_list sp) (Some (v c))\<rparr>)) comps"

definition const_material :: "(string \<Rightarrow> real) \<Rightarrow> material" where
  "const_material v =
     \<lparr>is_IMMaterial = True,
      sss_influence_matrices_normal = const_matrices v,
      sss_influence_matrices_tangential_x = const_matrices v,
      sss_influence_matrices_tangential_y = const_matrices v\<rparr>"

definition const_model :: "(string \<Rightarrow> real) \<Rightarrow> contact_model" where
  "const_model v =
     \<lparr>surface_1 = \<lparr>material = const_material v, grid_spacing = 1, position = (0, 0)\<rparr>,
      surface_2 = \<lparr>material = const_material v, grid_spacing = 1, position = (0, 0)\<rparr>\<rparr>"

text \<open>
  On a grid of one point the convolution of a load field with a kernel is, at each
  depth, the product of the kernel's value with the load.
\<close>

definition point_planner :: planner where
  "point_planner example_loads im periodic loads =
     (case data loads of [] \<Rightarrow> im | l # _ \<Rightarrow> a_un (\<lambda>x. fl_bin (*) x l) im)"

text \<open>A unit load on the grid of one point, and the state that holds it as \<open>loads_z\<close>.\<close>

definition unit_load :: ndarray where
  "unit_load = \<lparr>shape = [1, 1], data = [Some 1]\<rparr>"

definition point_state :: "string \<rightharpoonup> ndarray" where
  "point_state = [''loads_z'' \<mapsto> unit_load]"

text \<open>The array of shape \<open>(1, 1, 1)\<close> that holds \<open>x\<close>.\<close>

definition point_array :: "fl \<Rightarrow> ndarray" where
  "point_array x = \<lparr>shape = [1, 1, 1], data = [x]\<rparr>"

text \<open>The tensor with \<open>xx = 1\<close>, \<open>yy = 2\<close>, \<open>zz = 3\<close> and no shear, and the zero tensor.\<close>

definition diag_123 :: "string \<Rightarrow> real" where
  "diag_123 c = (if c = ''xx'' then 1 else if c = ''yy'' then 2 else if c = ''zz'' then 3 else 0)"

definition shift_by :: shifter where
  "shift_by s dy dx = s\<lparr>position := (fst (position s) + dy, snd (position s) + dx)\<rparr>"

text \<open>
  Sub-models built by the constructor for the examples below: two surfaces and one
  requested component, with and without kept kernels; one surface and the given
  components; \<open>z\<close> left unset; two load directions with nothing requested; and two load
  directions with one component requested and no kept kernels.
\<close>

definition two_surface_engine :: "bool \<Rightarrow> SubsurfaceStress" where
  "two_surface_engine keep =
     projr (SubsurfaceStress_init (Some [0]) (SurfaceSeq [1, 2]) ''sub_surface_stress''
              (False, False) ''z'' (StressSeq [''xx'']) keep False)"

definition principal_engine :: "string list \<Rightarrow> SubsurfaceStress" where
  "principal_engine comps =
     projr (SubsurfaceStress_init (Some [0]) (SurfaceInt 1) ''sub_surface_stress''
              (False, False) ''z'' (StressSeq comps) True False)"

definition unset_z_engine :: SubsurfaceStress where
  "unset_z_engine =
     projr (SubsurfaceStress_init None (SurfaceInt 1) ''sub_surface_stress''
              (False, False) ''z'' (StressStr ''xx'') True False)"

definition nothing_requested_engine :: SubsurfaceStress where
  "nothing_requested_engine =
     projr (SubsurfaceStress_init (Some [0]) (SurfaceInt 1) ''sub_surface_stress''
              (False, False) ''xz'' (StressSeq []) False False)"


definition all_components :: "string list" where
  "all_components = [''xx'', ''yy'', ''zz'', ''xy'', ''yz'', ''xz'', ''1'', ''2'', ''3'']"

text \<open>
  \<open>solve\<close> on the grid of one point, under a unit normal load, with the material whose
  influence matrices are the constants \<open>v\<close>: the stress tensor at the point is \<open>v\<close>.
\<close>

definition solve_point :: "(string \<Rightarrow> real) \<Rightarrow> SubsurfaceStress \<Rightarrow> (error \<times> world) + world" where
  "solve_point v self = SubsurfaceStress_solve point_planner (const_model v) (self, point_state)"

text \<open>What a call did: the exception it raised, if any, and the objects it left.\<close>

definition raised :: "(error \<times> 'w) + 'w \<Rightarrow> error option" where
  "raised r = (case r of Inl (e, w) \<Rightarrow> Some e | Inr w \<Rightarrow> None)"

definition world_after :: "(error \<times> 'w) + 'w \<Rightarrow> 'w" where
  "world_after r = (case r of Inl (e, w) \<Rightarrow> w | Inr w \<Rightarrow> w)"

definition state_after :: "(error \<times> world) + world \<Rightarrow> (string \<rightharpoonup> ndarray)" where
  "state_after r = snd (world_after r)"

text \<open>
  A rolling sub-model named \<open>roll\<close>, its keyword arguments, and a state that holds every
  key of the \<open>requires\<close> set the constructor declares.
\<close>

definition roller :: "int \<Rightarrow> UpdateShiftRollingSurface" where
  "roller to_roll = projr (UpdateShiftRollingSurface_init ''roll'' to_roll 1 0 ''linear'')"

definition roll_kwargs :: "string \<rightharpoonup> real" where
  "roll_kwargs = [''roll_shift_speed_x'' \<mapsto> 1, ''roll_shift_speed_y'' \<mapsto> 0]"

definition letters_state :: "string \<rightharpoonup> real" where
  "letters_state =
     [''t'' \<mapsto> 1, ''i'' \<mapsto> 1, ''m'' \<mapsto> 1, ''e'' \<mapsto> 1, ''_'' \<mapsto> 1, ''s'' \<mapsto> 1, ''p'' \<mapsto> 1]"

section \<open>Auxiliary lemmas\<close>

lemma str_1: "str 1 = ''1''"
  by (simp add: str_def str_nat.simps digit_char_def)

lemma str_2: "str 2 = ''2''"
  by (simp add: str_def str_nat.simps digit_char_def)

lemmas np_defs = np_add_def np_sub_def np_mul_def np_div_def np_scale_def np_divs_def np_rdiv_def
  np_subs_def np_sq_def np_cube_def np_sqrt_def np_cos_def np_arccos_def np_max3_def np_min3_def
  a_bin_def a_un_def fl_bin_def fl_un_def fl_div_def fl_sqrt_def fl_arccos_def

lemmas inv_defs = inv_b_def inv_c_def inv_d_def cubic_p_def cubic_q_def

lemmas init_defs = SubsurfaceStress_init_def valid_stresses_def cauchy_components_def Let_def

lemmas solve_defs = solve_point_def SubsurfaceStress_solve_def surface_body_def get_surface_def
  get_conv_funcs_def influence_matrices_def broadcastable_def broadcast_to_def const_model_def const_material_def const_matrices_def point_planner_def
  point_state_def unit_load_def write_results_def dd_get_def dd_touch_def zeros_def Let_def
  str_1 str_2 point_array_def raised_def world_after_def state_after_def
  np_add_def a_bin_def a_un_def fl_bin_def

lemma two_surface_engine_constructed:
  "SubsurfaceStress_init (Some [0]) (SurfaceSeq [1, 2]) ''sub_surface_stress''
     (False, False) ''z'' (StressSeq [''xx'']) keep False = Inr (two_surface_engine keep)"
  by (simp add: two_surface_engine_def init_defs)

lemma principal_engine_constructed:
  "SubsurfaceStress_init (Some [0]) (SurfaceInt 1) ''sub_surface_stress''
     (False, False) ''z'' (StressSeq all_components) True False = Inr (principal_engine all_components)"
  by (simp add: principal_engine_def all_components_def init_defs)

lemma principal_only_engine_constructed:
  "SubsurfaceStress_init (Some [0]) (SurfaceInt 1) ''sub_surface_stress''
     (False, False) ''z'' (StressSeq [''1'', ''2'', ''3'']) True False
   = Inr (principal_engine [''1'', ''2'', ''3''])"
  by (simp add: principal_engine_def init_defs)

lemma unset_z_engine_constructed:
  "SubsurfaceStress_init None (SurfaceInt 1) ''sub_surface_stress''
     (False, False) ''z'' (StressStr ''xx'') True False = Inr unset_z_engine"
  by (simp add: unset_z_engine_def init_defs)

lemma nothing_requested_engine_constructed:
  "SubsurfaceStress_init (Some [0]) (SurfaceInt 1) ''sub_surface_stress''
     (False, False) ''xz'' (StressSeq []) False False = Inr nothing_requested_engine"
  by (simp add: nothing_requested_engine_def init_defs)

lemma roller_constructed:
  "UpdateShiftRollingSurface_init ''roll'' 2 1 0 ''linear'' = Inr (roller 2)"
  by (simp add: roller_def UpdateShiftRollingSurface_init_def)

text \<open>The deletion loop raises exactly when the accumulator holds a key that was not requested.\<close>

lemma del_unrequested_raises:
  "del_unrequested requested keys = (if set keys \<subseteq> set requested then Inr () else Inl RuntimeError)"
  by (induction keys) auto

text \<open>
  Reading the six raw components puts each of them among the keys, so the principal
  stresses are only ever reached when all six were requested as well.
\<close>

lemma dd_touch_keeps: "key \<in> fst ` set ir \<Longrightarrow> key \<in> fst ` set (dd_touch osh ir k)"
  by (auto simp add: dd_touch_def)

lemma dd_touch_adds: "k \<in> fst ` set (dd_touch osh ir k)"
  by (auto simp add: dd_touch_def)

lemma foldl_dd_touch_keeps:
  "key \<in> fst ` set ir \<Longrightarrow> key \<in> fst ` set (foldl (dd_touch osh) ir ks)"
  by (induction ks arbitrary: ir) (auto intro: dd_touch_keeps)

lemma foldl_dd_touch_adds:
  "key \<in> set ks \<Longrightarrow> key \<in> fst ` set (foldl (dd_touch osh) ir ks)"
proof (induction ks arbitrary: ir)
  case Nil
  then show ?case by simp
next
  case (Cons k ks)
  show ?case
  proof (cases "key = k")
    case True
    then show ?thesis using foldl_dd_touch_keeps [OF dd_touch_adds] by simp
  next
    case False
    with Cons show ?thesis by simp
  qed
qed

lemma principal_step_needs_all_raw:
  assumes "key \<in> set cauchy_components" and "key \<notin> set requested"
  shows "principal_step requested osh ir = Inl RuntimeError"
proof -
  let ?ir1 = "foldl (dd_touch osh) ir [''xx'', ''yy'', ''zz'', ''xy'', ''xz'', ''yz'']"
  from assms(1) have "key \<in> set [''xx'', ''yy'', ''zz'', ''xy'', ''xz'', ''yz'']"
    by (auto simp add: cauchy_components_def)
  then have "key \<in> fst ` set ?ir1" by (rule foldl_dd_touch_adds)
  with assms(2) have "\<not> set (map fst ?ir1) \<subseteq> set requested" by auto
  then have "del_unrequested requested (map fst ?ir1) = Inl RuntimeError"
    by (simp add: del_unrequested_raises)
  then show ?thesis by (simp add: principal_step_def Let_def)
qed

subsection \<open>The kernel cache of a constructed sub-model\<close>




lemma cached_lookup_raises:
  assumes "keep_kernels self" and "cache_span self = shape example_loads"
    and "kernel_cache self n = Some inner" and "inner [l] = None"
  shows "get_conv_funcs plan example_loads zs n surf l self = Inl (KeyError [l], self)"
  using assms by (simp add: get_conv_funcs_def Let_def)

subsection \<open>A load field that is missing from the state\<close>








lemma surface_body_error_keeps_state:
  assumes "surface_body plan model ex zs n (self, current_state) = Inl (e, w)"
  shows "snd w = current_state"
  using assms
  by (auto simp add: surface_body_def Let_def split: sum.splits if_splits prod.splits)

















subsection \<open>The closed-form roots at two tensors\<close>

lemma cos_7pi_6: "cos (7 * pi / 6) = - (sqrt 3 / 2)"
proof -
  have "7 * pi / 6 = pi / 6 + pi" by simp
  then have "cos (7 * pi / 6) = cos (pi / 6 + pi)" by (simp only:)
  also have "\<dots> = - cos (pi / 6)" by (rule cos_periodic_pi)
  finally show ?thesis by (simp add: cos_30)
qed

lemma sqrt_third: "sqrt (1 / 3) * sqrt 3 = 1"
proof -
  have "sqrt (1 / 3) * sqrt 3 = sqrt ((1 / 3) * 3)" by (simp only: real_sqrt_mult)
  then show ?thesis by simp
qed

text \<open>For \<open>xx = 1\<close>, \<open>yy = 2\<close>, \<open>zz = 3\<close>: \<open>b = 6\<close>, \<open>p = -1\<close>, \<open>q = 0\<close>, and the roots are \<open>-1, -2, -3\<close>.\<close>

lemma principals_diag_0:
  "principals (point_array (Some (- 1))) (point_array (Some 0)) (point_array (Some 6)) 0
     = point_array (Some (- 1))"
  by (simp add: principals_def np_defs point_array_def cos_30 sqrt_third)

lemma principals_diag_1:
  "principals (point_array (Some (- 1))) (point_array (Some 0)) (point_array (Some 6)) (Suc 0)
     = point_array (Some (- 2))"
  by (simp add: principals_def np_defs point_array_def)

lemma principals_diag_2:
  "principals (point_array (Some (- 1))) (point_array (Some 0)) (point_array (Some 6)) 2
     = point_array (Some (- 3))"
  by (simp add: principals_def np_defs point_array_def cos_7pi_6 sqrt_third)

text \<open>For the zero tensor \<open>p = 0\<close>, and every root is \<open>nan\<close>.\<close>

lemma principals_zero:
  "principals (point_array (Some 0)) (point_array (Some 0)) (point_array (Some 0)) i = point_array None"
  by (simp add: principals_def np_defs point_array_def)

lemma principal_step_diag:
  "principal_step all_components [1, 1, 1]
     [(''xx'', point_array (Some 1)), (''yy'', point_array (Some 2)), (''zz'', point_array (Some 3)),
      (''xy'', point_array (Some 0)), (''yz'', point_array (Some 0)), (''xz'', point_array (Some 0))]
   = Inr [(''xx'', point_array (Some 1)), (''yy'', point_array (Some 2)), (''zz'', point_array (Some 3)),
      (''xy'', point_array (Some 0)), (''yz'', point_array (Some 0)), (''xz'', point_array (Some 0)),
      (''1'', point_array (Some (- 1))), (''3'', point_array (Some (- 3))), (''2'', point_array (Some 10))]"
proof -
  have b: "inv_b (point_array (Some 1)) (point_array (Some 2)) (point_array (Some 3)) = point_array (Some 6)"
    by (simp add: inv_defs np_defs point_array_def)
  have c: "inv_c (point_array (Some 1)) (point_array (Some 2)) (point_array (Some 3))
             (point_array (Some 0)) (point_array (Some 0)) (point_array (Some 0)) = point_array (Some 11)"
    by (simp add: inv_defs np_defs point_array_def)
  have d: "inv_d (point_array (Some 1)) (point_array (Some 2)) (point_array (Some 3))
             (point_array (Some 0)) (point_array (Some 0)) (point_array (Some 0)) = point_array (Some 6)"
    by (simp add: inv_defs np_defs point_array_def)
  have p: "cubic_p (point_array (Some 6)) (point_array (Some 11)) = point_array (Some (- 1))"
    by (simp add: inv_defs np_defs point_array_def)
  have q: "cubic_q (point_array (Some 6)) (point_array (Some 11)) (point_array (Some 6)) = point_array (Some 0)"
    by (simp add: inv_defs np_defs point_array_def)
  have mx: "np_max3 (point_array (Some (- 1))) (point_array (Some (- 2))) (point_array (Some (- 3)))
              = point_array (Some (- 1))"
    by (simp add: np_defs point_array_def)
  have mn: "np_min3 (point_array (Some (- 1))) (point_array (Some (- 2))) (point_array (Some (- 3)))
              = point_array (Some (- 3))"
    by (simp add: np_defs point_array_def)
  have two: "np_sub (np_sub (point_array (Some 6)) (point_array (Some (- 1)))) (point_array (Some (- 3)))
               = point_array (Some 10)"
    by (simp add: np_defs point_array_def)
  show ?thesis
    by (simp add: principal_step_def all_components_def dd_touch_def dd_get_def Let_def
          b c d p q principals_diag_0 principals_diag_1 principals_diag_2 mx mn two)
qed

lemma principal_step_zero:
  "principal_step all_components [1, 1, 1]
     [(''xx'', point_array (Some 0)), (''yy'', point_array (Some 0)), (''zz'', point_array (Some 0)),
      (''xy'', point_array (Some 0)), (''yz'', point_array (Some 0)), (''xz'', point_array (Some 0))]
   = Inr [(''xx'', point_array (Some 0)), (''yy'', point_array (Some 0)), (''zz'', point_array (Some 0)),
      (''xy'', point_array (Some 0)), (''yz'', point_array (Some 0)), (''xz'', point_array (Some 0)),
      (''1'', point_array None), (''3'', point_array None), (''2'', point_array None)]"
proof -
  have b: "inv_b (point_array (Some 0)) (point_array (Some 0)) (point_array (Some 0)) = point_array (Some 0)"
    by (simp add: inv_defs np_defs point_array_def)
  have c: "inv_c (point_array (Some 0)) (point_array (Some 0)) (point_array (Some 0))
             (point_array (Some 0)) (point_array (Some 0)) (point_array (Some 0)) = point_array (Some 0)"
    by (simp add: inv_defs np_defs point_array_def)
  have d: "inv_d (point_array (Some 0)) (point_array (Some 0)) (point_array (Some 0))
             (point_array (Some 0)) (point_array (Some 0)) (point_array (Some 0)) = point_array (Some 0)"
    by (simp add: inv_defs np_defs point_array_def)
  have p: "cubic_p (point_array (Some 0)) (point_array (Some 0)) = point_array (Some 0)"
    by (simp add: inv_defs np_defs point_array_def)
  have q: "cubic_q (point_array (Some 0)) (point_array (Some 0)) (point_array (Some 0)) = point_array (Some 0)"
    by (simp add: inv_defs np_defs point_array_def)
  have mx: "np_max3 (point_array None) (point_array None) (point_array None) = point_array None"
    by (simp add: np_defs point_array_def)
  have mn: "np_min3 (point_array None) (point_array None) (point_array None) = point_array None"
    by (simp add: np_defs point_array_def)
  have two: "np_sub (np_sub (point_array (Some 0)) (point_array None)) (point_array None) = point_array None"
    by (simp add: np_defs point_array_def)
  show ?thesis
    by (simp add: principal_step_def all_components_def dd_touch_def dd_get_def Let_def
          b c d p q principals_zero mx mn two)
qed

lemmas principal_step_diag_eval =
  principal_step_diag [unfolded point_array_def all_components_def, simplified]

lemmas principal_step_zero_eval =
  principal_step_zero [unfolded point_array_def all_components_def, simplified]

section \<open>SubsurfaceStress: construction\<close>

text \<open>
  C1.  The claim: a \<open>stress_components\<close> holding \<open>'all'\<close>, the default \<open>('all',)\<close> included,
  is accepted and stands for the six Cauchy components.  The code: \<open>valid_stresses\<close> has no
  \<open>'all'\<close>, so the constructor called with its own defaults raises
  \<open>ValueError\<close> for the identifier \<open>all\<close>.
\<close>

theorem SubsurfaceStress_default_raises:
  "SubsurfaceStress_default = Inl (ValueError ''Unrecognised stress component: all'')"
  by (simp add: SubsurfaceStress_default_def SubsurfaceStress_init_def valid_stresses_def)

section \<open>SubsurfaceStress: the kernel cache\<close>

text \<open>
  C2.  The claim: when the span of the load field differs from the recorded span, the
  kernels of every surface and direction are rebuilt before they are used.  The code, for
  two surfaces and kept kernels, on a first call with a load field of span \<open>(1, 1)\<close>
  (the recorded span is \<open>(0, 0)\<close>): the kernels of surface 1 are built and the span
  recorded; surface 2 then finds the span unchanged and reads
  \<open>_kernel_cache[2]['z']\<close>, which was never stored, and \<open>solve\<close> raises \<open>KeyError\<close>
  with the result of surface 1 written and none for surface 2.
\<close>

theorem second_surface_kernels_not_rebuilt:
  "cache_span (two_surface_engine True) = [0, 0]
   \<and> raised (solve_point diag_123 (two_surface_engine True)) = Some (KeyError ''z'')
   \<and> cache_span (fst (world_after (solve_point diag_123 (two_surface_engine True)))) = [1, 1]
   \<and> state_after (solve_point diag_123 (two_surface_engine True)) ''surface_1_xx''
       = Some (point_array (Some 1))
   \<and> state_after (solve_point diag_123 (two_surface_engine True)) ''surface_2_xx'' = None"
  by (simp add: two_surface_engine_def init_defs solve_defs diag_123_def)

text \<open>
  C4.  The claim: the results written into the state are the same with \<open>keep_kernels\<close>
  true or false.  The code, for two surfaces on one and the same state: without kept
  kernels \<open>solve\<close> returns and has written the stress of both surfaces; with kept kernels
  it raises \<open>KeyError\<close> and the stress of surface 2 is missing.
\<close>

theorem keep_kernels_changes_the_result:
  "raised (solve_point diag_123 (two_surface_engine False)) = None
   \<and> state_after (solve_point diag_123 (two_surface_engine False)) ''surface_2_xx''
       = Some (point_array (Some 1))
   \<and> raised (solve_point diag_123 (two_surface_engine True)) = Some (KeyError ''z'')
   \<and> state_after (solve_point diag_123 (two_surface_engine True)) ''surface_2_xx'' = None"
  by (simp add: two_surface_engine_def init_defs solve_defs diag_123_def)

section \<open>SubsurfaceStress: the principal stresses\<close>

text \<open>
  C3.  The claim: when a principal stress is requested, the six raw components are
  computed, the ones not requested are discarded and every requested principal stress is
  written.  The code, with \<open>stress_components = ('1', '2', '3')\<close>: the loop that deletes
  the raw components from the dictionary it iterates raises \<open>RuntimeError\<close>, and the
  state is left as it was, with no principal stress in it.
\<close>

theorem principal_request_raises:
  "raised (solve_point diag_123 (principal_engine [''1'', ''2'', ''3''])) = Some RuntimeError
   \<and> state_after (solve_point diag_123 (principal_engine [''1'', ''2'', ''3''])) = point_state"
  by (simp add: principal_engine_def init_defs solve_defs diag_123_def principal_step_def)

text \<open>
  C5.  The claim: at every point the written principal stresses are ordered,
  \<open>'1' \<ge> '2' \<ge> '3'\<close>.  The code, at the tensor \<open>xx = 1\<close>, \<open>yy = 2\<close>, \<open>zz = 3\<close> without
  shear (all nine components requested, so that the deletion loop passes): the roots it
  computes are those of \<open>x^3 + b x^2 + c x + d\<close>, the negated eigenvalues \<open>-1, -2, -3\<close>,
  so \<open>'1' = -1\<close>, \<open>'3' = -3\<close> and \<open>'2' = b - '1' - '3' = 10\<close>, which is above \<open>'1'\<close>.
\<close>

theorem principal_stresses_not_ordered:
  "raised (solve_point diag_123 (principal_engine all_components)) = None
   \<and> state_after (solve_point diag_123 (principal_engine all_components)) ''surface_1_1''
       = Some (point_array (Some (- 1)))
   \<and> state_after (solve_point diag_123 (principal_engine all_components)) ''surface_1_2''
       = Some (point_array (Some 10))
   \<and> state_after (solve_point diag_123 (principal_engine all_components)) ''surface_1_3''
       = Some (point_array (Some (- 3)))"
  by (simp add: principal_engine_def all_components_def init_defs solve_defs diag_123_def
        principal_step_diag_eval)

text \<open>
  C6.  The claim: at every point the three principal stresses sum to the trace
  \<open>xx + yy + zz\<close>.  The code, at the zero tensor: \<open>p = 0\<close>, the closed form divides by it,
  and \<open>'1'\<close>, \<open>'2'\<close> and \<open>'3'\<close> are written as \<open>nan\<close>, whose sum is not the trace \<open>0\<close>.
\<close>

theorem principal_stresses_nan_at_zero_tensor:
  "raised (solve_point (\<lambda>c. 0) (principal_engine all_components)) = None
   \<and> state_after (solve_point (\<lambda>c. 0) (principal_engine all_components)) ''surface_1_xx''
       = Some (point_array (Some 0))
   \<and> state_after (solve_point (\<lambda>c. 0) (principal_engine all_components)) ''surface_1_yy''
       = Some (point_array (Some 0))
   \<and> state_after (solve_point (\<lambda>c. 0) (principal_engine all_components)) ''surface_1_zz''
       = Some (point_array (Some 0))
   \<and> state_after (solve_point (\<lambda>c. 0) (principal_engine all_components)) ''surface_1_1''
       = Some (point_array None)
   \<and> state_after (solve_point (\<lambda>c. 0) (principal_engine all_components)) ''surface_1_2''
       = Some (point_array None)
   \<and> state_after (solve_point (\<lambda>c. 0) (principal_engine all_components)) ''surface_1_3''
       = Some (point_array None)"
  by (simp add: principal_engine_def all_components_def init_defs solve_defs principal_step_zero_eval)

section \<open>SubsurfaceStress: missing inputs\<close>





text \<open>
  C8.  The claim: with \<open>z\<close> left unset \<open>solve\<close> takes default depths from the grid spacing
  and completes.  The code keeps \<open>z = None\<close> and takes \<open>len(self.z)\<close>: \<open>solve\<close> raises
  \<open>TypeError\<close> and writes nothing.
\<close>

theorem unset_z_raises:
  "z unset_z_engine = None
   \<and> SubsurfaceStress_solve point_planner (const_model diag_123) (unset_z_engine, point_state)
       = Inl (TypeError, (unset_z_engine, point_state))"
  by (simp add: unset_z_engine_def init_defs solve_defs)

section \<open>UpdateShiftRollingSurface\<close>

text \<open>
  C9.  The claim: the sub-model declares \<open>requires = {"time_step"}\<close>.  The code passes
  \<open>set("time_step")\<close>, the set of the seven characters of the word, which does not hold
  the key \<open>time_step\<close> that \<open>_solve\<close> reads.
\<close>

theorem requires_is_set_of_characters:
  "UpdateShiftRollingSurface_init nm 1 speed_x speed_y mode
     = Inr (projr (UpdateShiftRollingSurface_init nm 1 speed_x speed_y mode))
   \<and> requires (projr (UpdateShiftRollingSurface_init nm 1 speed_x speed_y mode))
       = {''t'', ''i'', ''m'', ''e'', ''_'', ''s'', ''p''}
   \<and> ''time_step'' \<notin> requires (projr (UpdateShiftRollingSurface_init nm 1 speed_x speed_y mode))"
  by (auto simp add: UpdateShiftRollingSurface_init_def set_of_str_def)

text \<open>
  C10, as claimed: with \<open>surface_to_roll = 2\<close>, \<open>_solve\<close> returns the state unchanged for
  every state.  It does not on a state without \<open>time_step\<close>, even one that holds every key
  of the declared \<open>requires\<close>: the lookup of line 22 raises \<open>KeyError\<close>.
\<close>

theorem roll_2_raises_without_time_step:
  "surface_to_roll (roller 2) = 2
   \<and> requires (roller 2) \<subseteq> dom letters_state
   \<and> UpdateShiftRollingSurface_solve shift_by (roller 2) (const_model diag_123) letters_state roll_kwargs
       = Inl (KeyError ''time_step'')"
  by (simp add: roller_def UpdateShiftRollingSurface_init_def set_of_str_def letters_state_def
        roll_kwargs_def UpdateShiftRollingSurface_solve_def)

text \<open>
  C10, as amended: the constructor raises exactly when \<open>surface_to_roll\<close> is neither 1
  nor 2; and on every state that holds \<open>time_step\<close>, with the two speeds among the keyword
  arguments, \<open>_solve\<close> returns the state unchanged, having shifted \<open>surface_1\<close> by
  \<open>speed * time_step\<close> when \<open>surface_to_roll\<close> is 1 and having changed no surface
  otherwise, so none when it is 2.
\<close>

theorem roll_only_surface_1:
  assumes "current_state ''time_step'' = Some time_step"
    and "kwargs (name self @ ''_shift_speed_x'') = Some vx"
    and "kwargs (name self @ ''_shift_speed_y'') = Some vy"
  shows "isl (UpdateShiftRollingSurface_init nm to_roll speed_x speed_y mode)
           = (to_roll \<noteq> 1 \<and> to_roll \<noteq> 2)
    \<and> UpdateShiftRollingSurface_solve shift self model current_state kwargs
        = Inr (if surface_to_roll self = 1
               then model\<lparr>surface_1 := shift (surface_1 model) (vy * time_step) (vx * time_step)\<rparr>
               else model, current_state)"
  using assms
  by (simp add: UpdateShiftRollingSurface_init_def UpdateShiftRollingSurface_solve_def Let_def)

theorem roll_only_surface_1_witness:
  "UpdateShiftRollingSurface_solve shift_by (roller 2) (const_model diag_123)
       [''time_step'' \<mapsto> 2] roll_kwargs
     = Inr (const_model diag_123, [''time_step'' \<mapsto> 2])
   \<and> isl (UpdateShiftRollingSurface_init ''roll'' 3 1 0 ''linear'')"
proof -
  have a: "[''time_step'' \<mapsto> 2::real] ''time_step'' = Some 2"
    by simp
  have n: "name (roller 2) = ''roll''" and r: "surface_to_roll (roller 2) = 2"
    by (simp_all add: roller_def UpdateShiftRollingSurface_init_def)
  have b: "roll_kwargs (name (roller 2) @ ''_shift_speed_x'') = Some 1"
    by (simp add: n roll_kwargs_def)
  have c: "roll_kwargs (name (roller 2) @ ''_shift_speed_y'') = Some 0"
    by (simp add: n roll_kwargs_def)
  show ?thesis
    using roll_only_surface_1 [where current_state = "[''time_step'' \<mapsto> 2]"
        and kwargs = roll_kwargs and self = "roller 2" and time_step = 2 and vx = 1 and vy = 0
        and nm = "''roll''" and to_roll = 3 and speed_x = 1 and speed_y = 0
        and mode = "''linear''" and shift = shift_by and model = "const_model diag_123",
        OF a b c] r
    by simp
qed

end
